theory Spec2Isabelle
  imports Main "HOL-Library.Word" "HOL-Library.Sublist"
begin

section \<open>Exceptions and HTTP replies\<close>

text \<open>
  The migration tool has two phases: \<open>download_packages.py\<close> fetches and verifies the
  archives named by a lockfile, \<open>upload_to_nexus.py\<close> reconciles each verified archive
  with a Nexus server.  Both are modelled with explicit state passing: every function
  returns its Python result together with the list of events it caused (client
  operations entered, HTTP requests sent, lines printed).

  The JSON documents the scripts read (lockfile, search response) are typed after their
  schema: a key read with \<open>.get\<close> is an optional field, a key read with \<open>[...]\<close>
  is a field that the schema always provides.  Printed lines are constructors of
  \<open>message\<close> carrying the values interpolated into the line; the fixed text of each
  line is given in a comment.
\<close>

datatype py_exception =
    HTTPError nat
      \<comment> \<open>\<open>requests.HTTPError\<close> from \<open>raise_for_status\<close>, with the status code\<close>
  | RequestException
      \<comment> \<open>any other exception of \<open>requests\<close>: connection error, timeout, broken stream\<close>
  | JSONDecodeError
      \<comment> \<open>the body of a reply is not JSON\<close>
  | NotUnique string string string
      \<comment> \<open>the \<open>ValueError\<close> of \<open>_find_component\<close>: group, name, version\<close>
  | Sha512Mismatch string string
      \<comment> \<open>the \<open>ValueError\<close> of \<open>download_package\<close>: expected digest, computed digest\<close>
  | FileNotFoundError
  | OSError

datatype 'a http_reply =
    NoReply
      \<comment> \<open>the request itself raised: no connection, timeout\<close>
  | Reply nat 'a
      \<comment> \<open>status code and body\<close>

definition raise_for_status :: "nat \<Rightarrow> py_exception option" where
  "raise_for_status status =
     (if 400 \<le> status \<and> status < 600 then Some (HTTPError status) else None)"

section \<open>Strings\<close>

definition startswith :: "string \<Rightarrow> string \<Rightarrow> bool" where
  "startswith s p = (take (length p) s = p)"

definition endswith :: "string \<Rightarrow> string \<Rightarrow> bool" where
  "endswith s p = (length p \<le> length s \<and> drop (length s - length p) s = p)"

text \<open>\<open>s.replace(c, d)\<close> for single characters, and \<open>s.replace(c, '')\<close>.\<close>

definition replace_char :: "char \<Rightarrow> char \<Rightarrow> string \<Rightarrow> string" where
  "replace_char c d s = map (\<lambda>x. if x = c then d else x) s"

definition remove_char :: "char \<Rightarrow> string \<Rightarrow> string" where
  "remove_char c s = filter (\<lambda>x. x \<noteq> c) s"

text \<open>\<open>s.split(c)\<close> for a single character: never empty, empty fields are kept.\<close>

fun split_on :: "char \<Rightarrow> string \<Rightarrow> string list" where
  "split_on c [] = [[]]"
| "split_on c (x # xs) =
     (if x = c then [] # split_on c xs
      else (case split_on c xs of
              [] \<Rightarrow> [[x]]
            | w # ws \<Rightarrow> (x # w) # ws))"

text \<open>\<open>s.split(c, 1)\<close>: cut at the first \<open>c\<close>, if there is one.\<close>

fun split_first :: "char \<Rightarrow> string \<Rightarrow> string list" where
  "split_first c [] = [[]]"
| "split_first c (x # xs) =
     (if x = c then [[], xs]
      else (case split_first c xs of
              [] \<Rightarrow> [[x]]
            | w # ws \<Rightarrow> (x # w) # ws))"

section \<open>The Nexus client (\<open>upload_to_nexus.py\<close>)\<close>

record asset =
  asset_path :: "string option"
  asset_checksum :: "(string \<times> string) list option"

record component =
  comp_id :: string
  comp_repository :: string
  comp_assets :: "asset list option"

record search_data =
  items :: "component list option"

text \<open>One entry of the manifest, as \<open>download_package\<close> builds it.\<close>

record package_meta =
  meta_group :: string
  meta_name :: string
  meta_version :: string
  meta_nexus_search_name :: string
  meta_download_url :: string
  meta_local_path :: string
  meta_sha512_hex :: string

text \<open>The fields of \<open>NexusUploader\<close> that \<open>__init__\<close> reads from the configuration.\<close>

record uploader =
  base_url :: string
  upload_repo :: string
  check_repos :: "string list"

definition upload_url :: "uploader \<Rightarrow> string" where
  "upload_url u = base_url u @ ''/service/rest/v1/components?repository='' @ upload_repo u"

definition components_url :: "uploader \<Rightarrow> string" where
  "components_url u = base_url u @ ''/service/rest/v1/components''"

definition search_components_url :: "uploader \<Rightarrow> string" where
  "search_components_url u = base_url u @ ''/service/rest/v1/search''"

datatype file_status = Missing | Readable | Unreadable

text \<open>
  What the uploader's surroundings answer: the server to each request, the file system
  to \<open>os.path.exists\<close> and \<open>open\<close>.  The body of a search reply is \<open>None\<close> when it is
  not JSON.
\<close>

record world =
  http_get :: "string \<Rightarrow> (string \<times> string) list \<Rightarrow> search_data option http_reply"
  http_delete :: "string \<Rightarrow> unit http_reply"
  http_post :: "string \<Rightarrow> string \<Rightarrow> string http_reply"
  local_file :: "string \<Rightarrow> file_status"

datatype message =
    FindError string py_exception
      \<comment> \<open>line 54, error while searching: repository, exception\<close>
  | FindUnexpected string py_exception
      \<comment> \<open>line 56, unexpected error while searching: repository, exception\<close>
  | Deleted string
      \<comment> \<open>line 78, old component deleted: id\<close>
  | DeleteFailed string py_exception
      \<comment> \<open>line 81, deleting the component failed: id, exception\<close>
  | FileMissing string
      \<comment> \<open>line 88, file does not exist, upload skipped: local path\<close>
  | Uploaded string string
      \<comment> \<open>line 99, uploaded: name, version\<close>
  | UploadFailed string py_exception
      \<comment> \<open>line 102, upload failed: name, exception\<close>
  | ResponseText string
      \<comment> \<open>line 104, the body of the failed reply\<close>
  | Processing string
      \<comment> \<open>line 117, processing: package id\<close>
  | FoundIn string
      \<comment> \<open>line 126, found in repository\<close>
  | ShaMatches
      \<comment> \<open>line 131, SHA-512 matches, skipping\<close>
  | ShaDiffers string string
      \<comment> \<open>line 135, SHA-512 differs: first ten characters of the local and remote digest\<close>
  | DeletingFromTarget string
      \<comment> \<open>line 147, mismatching package in the target repository, deleting\<close>
  | FoundElsewhere string string
      \<comment> \<open>line 151, mismatching package in another repository: that repository, target\<close>
  | MayDuplicate
      \<comment> \<open>line 152, uploading to the target anyway, this may duplicate the package\<close>
  | PreparingUpload string
      \<comment> \<open>line 156, about to upload to the target repository\<close>

datatype event =
    Find string string string string
      \<comment> \<open>\<open>_find_component\<close> entered: repository, group, name, version\<close>
  | Delete string
      \<comment> \<open>\<open>_delete_component\<close> entered: component id\<close>
  | Upload package_meta
      \<comment> \<open>\<open>_upload_package\<close> entered\<close>
  | Get string "(string \<times> string) list"
      \<comment> \<open>\<open>session.get\<close>: URL, parameters\<close>
  | DeleteRequest string
      \<comment> \<open>\<open>session.delete\<close>: URL\<close>
  | Post string string
      \<comment> \<open>\<open>session.post\<close>: URL, path of the file sent\<close>
  | Print message

text \<open>
  \<open>_find_component\<close>.  Everything after the parameters are built runs inside \<open>try\<close>;
  the handler for \<open>requests.HTTPError\<close> returns silently on 404 and prints otherwise,
  the handler for \<open>Exception\<close> prints; both fall through to \<open>return None\<close>.
\<close>

definition find_params :: "string \<Rightarrow> string \<Rightarrow> string \<Rightarrow> string \<Rightarrow> (string \<times> string) list" where
  "find_params repo grp name version =
     [(''repository'', repo), (''name'', name), (''version'', version),
      (''group'', if grp \<noteq> [] then remove_char CHR ''@'' grp
                  else [CHR 0x22, CHR 0x22])]"

definition find_component ::
  "world \<Rightarrow> uploader \<Rightarrow> string \<Rightarrow> string \<Rightarrow> string \<Rightarrow> string \<Rightarrow> component option \<times> event list" where
  "find_component w u repo grp name version =
     (let params = find_params repo grp name version;
          url = search_components_url u;
          sent = [Find repo grp name version, Get url params]
      in case http_get w url params of
           NoReply \<Rightarrow> (None, sent @ [Print (FindUnexpected repo RequestException)])
         | Reply status body \<Rightarrow>
             (case raise_for_status status of
                Some e \<Rightarrow>
                  (if status = 404 then (None, sent)
                   else (None, sent @ [Print (FindError repo e)]))
              | None \<Rightarrow>
                  (case body of
                     None \<Rightarrow> (None, sent @ [Print (FindUnexpected repo JSONDecodeError)])
                   | Some data \<Rightarrow>
                       (case items data of
                          None \<Rightarrow> (None, sent)
                        | Some [] \<Rightarrow> (None, sent)
                        | Some (c # cs) \<Rightarrow>
                            (if length (c # cs) \<noteq> 1
                             then (None, sent @ [Print (FindUnexpected repo
                                                  (NotUnique grp name version))])
                             else (Some c, sent))))))"

text \<open>\<open>_get_remote_sha512_hex\<close>: the checksum of the first asset whose path ends in \<open>.tgz\<close>.\<close>

fun tgz_sha512 :: "asset list \<Rightarrow> string option" where
  "tgz_sha512 [] = None"
| "tgz_sha512 (a # as) =
     (if endswith (case asset_path a of None \<Rightarrow> [] | Some p \<Rightarrow> p) ''.tgz''
      then map_of (case asset_checksum a of None \<Rightarrow> [] | Some cs \<Rightarrow> cs) ''sha512''
      else tgz_sha512 as)"

definition get_remote_sha512_hex :: "component option \<Rightarrow> string option" where
  "get_remote_sha512_hex component =
     (case component of
        None \<Rightarrow> None
      | Some c \<Rightarrow> (case comp_assets c of None \<Rightarrow> None | Some as \<Rightarrow> tgz_sha512 as))"

definition delete_component :: "world \<Rightarrow> uploader \<Rightarrow> string \<Rightarrow> bool \<times> event list" where
  "delete_component w u component_id =
     (let delete_url = components_url u @ ''/'' @ component_id;
          sent = [Delete component_id, DeleteRequest delete_url]
      in case http_delete w delete_url of
           NoReply \<Rightarrow> (False, sent @ [Print (DeleteFailed component_id RequestException)])
         | Reply status body \<Rightarrow>
             (case raise_for_status status of
                Some e \<Rightarrow> (False, sent @ [Print (DeleteFailed component_id e)])
              | None \<Rightarrow> (True, sent @ [Print (Deleted component_id)])))"

text \<open>
  \<open>_upload_package\<close>.  The file is opened before the \<open>try\<close>, so a file that exists
  and cannot be opened raises out of the function.
\<close>

definition upload_package ::
  "world \<Rightarrow> uploader \<Rightarrow> package_meta \<Rightarrow> (py_exception + bool) \<times> event list" where
  "upload_package w u m =
     (let local_path = meta_local_path m
      in case local_file w local_path of
           Missing \<Rightarrow> (Inr False, [Upload m, Print (FileMissing local_path)])
         | Unreadable \<Rightarrow> (Inl OSError, [Upload m])
         | Readable \<Rightarrow>
             (let sent = [Upload m, Post (upload_url u) local_path]
              in case http_post w (upload_url u) local_path of
                   NoReply \<Rightarrow>
                     (Inr False, sent @ [Print (UploadFailed (meta_name m) RequestException)])
                 | Reply status text \<Rightarrow>
                     (case raise_for_status status of
                        Some e \<Rightarrow>
                          (Inr False, sent @ [Print (UploadFailed (meta_name m) e),
                                              Print (ResponseText text)])
                      | None \<Rightarrow>
                          (Inr True, sent @ [Print (Uploaded (meta_name m) (meta_version m))]))))"

text \<open>
  The search loop of \<open>process_package\<close>: the check repositories in their configured
  order, stopping at the first one in which \<open>_find_component\<close> returns a component.
  The result is \<open>(found_component, sha_matches)\<close>.
\<close>

definition str_of_digest :: "string option \<Rightarrow> string" where
  "str_of_digest d = (case d of None \<Rightarrow> ''None'' | Some h \<Rightarrow> h)"

fun search_repos ::
  "world \<Rightarrow> uploader \<Rightarrow> package_meta \<Rightarrow> string list \<Rightarrow> (component option \<times> bool) \<times> event list" where
  "search_repos w u m [] = ((None, False), [])"
| "search_repos w u m (repo # repos) =
     (case find_component w u repo (meta_group m) (meta_name m) (meta_version m) of
        (Some c, evs) \<Rightarrow>
          (let remote_sha512_hex = get_remote_sha512_hex (Some c)
           in if remote_sha512_hex = Some (meta_sha512_hex m)
              then ((Some c, True), evs @ [Print (FoundIn repo), Print ShaMatches])
              else ((Some c, False),
                    evs @ [Print (FoundIn repo),
                           Print (ShaDiffers (take 10 (meta_sha512_hex m))
                                             (take 10 (str_of_digest remote_sha512_hex)))]))
      | (None, evs) \<Rightarrow>
          (case search_repos w u m repos of (r, evs') \<Rightarrow> (r, evs @ evs')))"

definition pkg_id :: "package_meta \<Rightarrow> string" where
  "pkg_id m =
     (if meta_group m \<noteq> [] then meta_group m @ ''/'' @ meta_name m @ ''@'' @ meta_version m
      else meta_name m @ ''@'' @ meta_version m)"

text \<open>
  \<open>process_package\<close> returns nothing; the model returns the exception that leaves it,
  if one does, and the events.
\<close>

definition process_package ::
  "world \<Rightarrow> uploader \<Rightarrow> package_meta \<Rightarrow> py_exception option \<times> event list" where
  "process_package w u m =
     (case search_repos w u m (check_repos u) of
        ((found_component, sha_matches), evs1) \<Rightarrow>
          (let evs1 = Print (Processing (pkg_id m)) # evs1
           in if sha_matches then (None, evs1)
              else
                (let evs2 =
                   (case found_component of
                      None \<Rightarrow> []
                    | Some c \<Rightarrow>
                        (if comp_repository c = upload_repo u
                         then Print (DeletingFromTarget (upload_repo u))
                              # snd (delete_component w u (comp_id c))
                         else [Print (FoundElsewhere (comp_repository c) (upload_repo u)),
                               Print MayDuplicate]));
                     up = upload_package w u m
                 in ((case fst up of Inl e \<Rightarrow> Some e | Inr ok \<Rightarrow> None),
                     evs1 @ evs2 @ [Print (PreparingUpload (upload_repo u))] @ snd up))))"

text \<open>The loop of \<open>main_upload\<close>: an exception of one entry is printed, the loop goes on.\<close>

datatype main_event = Entry "event list" | EntryFailed string py_exception

fun upload_all :: "world \<Rightarrow> uploader \<Rightarrow> package_meta list \<Rightarrow> main_event list" where
  "upload_all w u [] = []"
| "upload_all w u (m # ms) =
     (case process_package w u m of
        (None, evs) \<Rightarrow> Entry evs # upload_all w u ms
      | (Some e, evs) \<Rightarrow> Entry evs # EntryFailed (meta_name m) e # upload_all w u ms)"

text \<open>The client operations among the events of a run.\<close>

fun is_delete_call :: "event \<Rightarrow> bool" where
  "is_delete_call (Delete i) = True"
| "is_delete_call _ = False"

fun is_upload_call :: "event \<Rightarrow> bool" where
  "is_upload_call (Upload m) = True"
| "is_upload_call _ = False"

definition calls :: "event list \<Rightarrow> event list" where
  "calls evs = filter (\<lambda>e. is_delete_call e \<or> is_upload_call e) evs"

text \<open>The requests among the events that change the server.\<close>

fun is_write_request :: "event \<Rightarrow> bool" where
  "is_write_request (DeleteRequest url) = True"
| "is_write_request (Post url file) = True"
| "is_write_request _ = False"

section \<open>Strings, continued\<close>

text \<open>
  \<open>s.rfind(p)\<close>: the highest index at which \<open>p\<close> occurs in \<open>s\<close>, or \<open>-1\<close>.
\<close>

definition rfind :: "string \<Rightarrow> string \<Rightarrow> int" where
  "rfind s p =
     (case filter (\<lambda>i. startswith (drop i s) p) (rev [0..<Suc (length s)]) of
        [] \<Rightarrow> - 1
      | i # _ \<Rightarrow> int i)"

text \<open>
  \<open>s.replace(p, '')\<close>: the occurrences of \<open>p\<close> are removed from left to right,
  without overlap; an empty \<open>p\<close> removes nothing.
\<close>

function remove_substr :: "string \<Rightarrow> string \<Rightarrow> string" where
  "remove_substr p [] = []"
| "remove_substr p (c # cs) =
     (if p \<noteq> [] \<and> startswith (c # cs) p
      then remove_substr p (drop (length p) (c # cs))
      else c # remove_substr p cs)"
  by pat_completeness auto
termination
  by (relation "measure (\<lambda>(p, s). length s)") auto

text \<open>\<open>sep.join(xs)\<close> for the separator \<open>/\<close>.\<close>

fun join_sep :: "string list \<Rightarrow> string" where
  "join_sep [] = []"
| "join_sep [x] = x"
| "join_sep (x # y # ys) = x @ ''/'' @ join_sep (y # ys)"

section \<open>Paths (\<open>os.path\<close> on POSIX)\<close>

definition path_join :: "string \<Rightarrow> string \<Rightarrow> string" where
  "path_join a b =
     (if startswith b ''/'' then b
      else if a = [] \<or> endswith a ''/'' then a @ b
      else a @ ''/'' @ b)"

text \<open>
  The loop of \<open>normpath\<close> over the components, with \<open>new_comps\<close> as accumulator:
  empty components and \<open>.\<close> are dropped, \<open>..\<close> removes the component before it
  unless there is none to remove.
\<close>

fun norm_comps :: "bool \<Rightarrow> string list \<Rightarrow> string list \<Rightarrow> string list" where
  "norm_comps initial_slashes [] new_comps = new_comps"
| "norm_comps initial_slashes (part # comps) new_comps =
     (if part = [] \<or> part = ''.'' then norm_comps initial_slashes comps new_comps
      else if part \<noteq> ''..'' \<or> (\<not> initial_slashes \<and> new_comps = [])
              \<or> (new_comps \<noteq> [] \<and> last new_comps = ''..'')
      then norm_comps initial_slashes comps (new_comps @ [part])
      else if new_comps \<noteq> [] then norm_comps initial_slashes comps (butlast new_comps)
      else norm_comps initial_slashes comps new_comps)"

definition normpath :: "string \<Rightarrow> string" where
  "normpath path =
     (if path = [] then ''.''
      else
        (let initial_slashes =
               (if startswith path ''/''
                then (if startswith path ''//'' \<and> \<not> startswith path ''///''
                      then 2 else 1)
                else (0::nat));
             comps = norm_comps (initial_slashes \<noteq> 0) (split_on CHR ''/'' path) [];
             p = replicate initial_slashes CHR ''/'' @ join_sep comps
         in if p = [] then ''.'' else p))"

definition abspath :: "string \<Rightarrow> string \<Rightarrow> string" where
  "abspath cwd path =
     normpath (if startswith path ''/'' then path else path_join cwd path)"

section \<open>Digest encodings\<close>

type_synonym byte = "8 word"

fun index_of :: "'a \<Rightarrow> 'a list \<Rightarrow> nat option" where
  "index_of x [] = None"
| "index_of x (y # ys) = (if x = y then Some 0 else map_option Suc (index_of x ys))"

definition hex_digits :: string where
  "hex_digits = ''0123456789abcdef''"

text \<open>\<open>hexdigest()\<close>: two lower-case digits for each byte.\<close>

definition hexencode :: "byte list \<Rightarrow> string" where
  "hexencode bs =
     concat (map (\<lambda>b. [hex_digits ! (unat b div 16), hex_digits ! (unat b mod 16)]) bs)"

fun hexdecode :: "string \<Rightarrow> byte list option" where
  "hexdecode [] = Some []"
| "hexdecode [c] = None"
| "hexdecode (c # d # cs) =
     (case (index_of c hex_digits, index_of d hex_digits, hexdecode cs) of
        (Some h, Some l, Some bs) \<Rightarrow> Some (of_nat (h * 16 + l) # bs)
      | _ \<Rightarrow> None)"

definition b64_alphabet :: string where
  "b64_alphabet = ''ABCDEFGHIJKLMNOPQRSTUVWXYZabcdefghijklmnopqrstuvwxyz0123456789+/''"

definition b64char :: "nat \<Rightarrow> char" where
  "b64char n = b64_alphabet ! n"

text \<open>
  \<open>base64.b64encode\<close>: three bytes give four characters of six bits each; a last group
  of one or two bytes is filled with zero bits and padded with \<open>=\<close>.
\<close>

fun b64encode :: "byte list \<Rightarrow> string" where
  "b64encode [] = []"
| "b64encode [a] =
     [b64char (unat a div 4), b64char (unat a mod 4 * 16), CHR ''='', CHR ''='']"
| "b64encode [a, b] =
     [b64char (unat a div 4), b64char (unat a mod 4 * 16 + unat b div 16),
      b64char (unat b mod 16 * 4), CHR ''='']"
| "b64encode (a # b # c # rest) =
     [b64char (unat a div 4), b64char (unat a mod 4 * 16 + unat b div 16),
      b64char (unat b mod 16 * 4 + unat c div 64), b64char (unat c mod 64)]
     @ b64encode rest"

text \<open>
  The decoding the round trip of the digest is stated with: groups of four characters
  of the alphabet, the last one possibly padded.
\<close>

definition b64val :: "char \<Rightarrow> nat option" where
  "b64val c = index_of c b64_alphabet"

fun b64decode :: "string \<Rightarrow> byte list option" where
  "b64decode [] = Some []"
| "b64decode (c1 # c2 # c3 # c4 # cs) =
     (if cs = [] \<and> c4 = CHR ''='' \<and> c3 = CHR ''='' then
        (case (b64val c1, b64val c2) of
           (Some s1, Some s2) \<Rightarrow> Some [of_nat (s1 * 4 + s2 div 16)]
         | _ \<Rightarrow> None)
      else if cs = [] \<and> c4 = CHR ''='' then
        (case (b64val c1, b64val c2, b64val c3) of
           (Some s1, Some s2, Some s3) \<Rightarrow>
             Some [of_nat (s1 * 4 + s2 div 16), of_nat (s2 mod 16 * 16 + s3 div 4)]
         | _ \<Rightarrow> None)
      else
        (case (b64val c1, b64val c2, b64val c3, b64val c4, b64decode cs) of
           (Some s1, Some s2, Some s3, Some s4, Some bs) \<Rightarrow>
             Some (of_nat (s1 * 4 + s2 div 16) # of_nat (s2 mod 16 * 16 + s3 div 4)
                   # of_nat (s3 mod 4 * 64 + s4) # bs)
         | _ \<Rightarrow> None))"
| "b64decode _ = None"

section \<open>The downloader (\<open>download_packages.py\<close>)\<close>

text \<open>One value of the lockfile's \<open>packages\<close> object, and the document itself.\<close>

record lock_entry =
  entry_resolved :: "string option"
  entry_integrity :: "string option"
  entry_version :: "string option"

record lock_data =
  lock_packages :: "(string \<times> lock_entry) list option"

text \<open>What \<open>open\<close> and \<open>json.load\<close> make of the lockfile.\<close>

datatype lockfile =
    LockAbsent
      \<comment> \<open>\<open>open\<close> raises \<open>FileNotFoundError\<close>\<close>
  | LockMalformed
      \<comment> \<open>\<open>json.load\<close> raises \<open>json.JSONDecodeError\<close>\<close>
  | LockRaises py_exception
      \<comment> \<open>any other exception of \<open>open\<close> or \<open>json.load\<close>\<close>
  | LockData lock_data

text \<open>The dictionary that \<open>parse_package_lock\<close> appends for one package.\<close>

record package =
  pkg_name :: string
  pkg_version :: string
  pkg_resolved :: string
  pkg_sha512_b64 :: string

datatype dl_message =
    Parsing string
      \<comment> \<open>line 26, parsing: lockfile path\<close>
  | LockNotFound string
      \<comment> \<open>line 32, error, not found: lockfile path\<close>
  | LockBadFormat string
      \<comment> \<open>line 35, error, the file's format is wrong: lockfile path\<close>
  | PackagesEmpty
      \<comment> \<open>line 40, warning, the \<open>packages\<close> field is empty or missing\<close>
  | SkipInvalid string
      \<comment> \<open>line 57, invalid entry skipped: key\<close>
  | NoSha512 string string
      \<comment> \<open>line 68, warning, no sha512 value, skipped: name, version\<close>
  | ParseDone nat
      \<comment> \<open>line 78, parsing finished: number of packages\<close>
  | DownloadFailed string string py_exception
      \<comment> \<open>line 167, download failed: name, version, exception\<close>

definition truthy :: "string option \<Rightarrow> bool" where
  "truthy v = (case v of None \<Rightarrow> False | Some s \<Rightarrow> s \<noteq> [])"

text \<open>The inner loop of the parser: the first token of \<open>integrity\<close> that starts with \<open>sha512-\<close>.\<close>

fun find_sha512 :: "string list \<Rightarrow> string option" where
  "find_sha512 [] = None"
| "find_sha512 (s # ss) =
     (if startswith s ''sha512-'' then Some (remove_substr ''sha512-'' s)
      else find_sha512 ss)"

definition name_of_path :: "string \<Rightarrow> string" where
  "name_of_path path =
     drop (nat (rfind path ''node_modules/'' + int (length ''node_modules/''))) path"

text \<open>
  The loop of the parser over \<open>all_packages.items()\<close>: the packages appended and the
  lines printed.
\<close>

fun parse_entries :: "(string \<times> lock_entry) list \<Rightarrow> package list \<times> dl_message list" where
  "parse_entries [] = ([], [])"
| "parse_entries ((path, details) # rest) =
     (let (pkgs, msgs) = parse_entries rest
      in if path = [] then (pkgs, msgs)
         else
           (let name = name_of_path path
            in if \<not> (truthy (entry_resolved details) \<and> truthy (entry_integrity details)
                       \<and> truthy (entry_version details) \<and> name \<noteq> [])
               then (pkgs, SkipInvalid path # msgs)
               else
                 (let version = the (entry_version details);
                      sha512_b64 = find_sha512 (split_on CHR '' '' (the (entry_integrity details)))
                  in if \<not> truthy sha512_b64
                     then (pkgs, NoSha512 name version # msgs)
                     else (\<lparr>pkg_name = name, pkg_version = version,
                             pkg_resolved = the (entry_resolved details),
                             pkg_sha512_b64 = the sha512_b64\<rparr> # pkgs, msgs))))"

definition parse_package_lock ::
  "lockfile \<Rightarrow> string \<Rightarrow> (py_exception + package list) \<times> dl_message list" where
  "parse_package_lock lockfile lockfile_path =
     (case lockfile of
        LockAbsent \<Rightarrow> (Inr [], [Parsing lockfile_path, LockNotFound lockfile_path])
      | LockMalformed \<Rightarrow> (Inr [], [Parsing lockfile_path, LockBadFormat lockfile_path])
      | LockRaises e \<Rightarrow> (Inl e, [Parsing lockfile_path])
      | LockData data \<Rightarrow>
          (case lock_packages data of
             None \<Rightarrow> (Inr [], [Parsing lockfile_path, PackagesEmpty])
           | Some [] \<Rightarrow> (Inr [], [Parsing lockfile_path, PackagesEmpty])
           | Some all_packages \<Rightarrow>
               (let (pkgs, msgs) = parse_entries all_packages
                in (Inr pkgs, Parsing lockfile_path # msgs @ [ParseDone (length pkgs)]))))"

text \<open>The \<open>[Downloader]\<close> section of the configuration, with the defaults applied.\<close>

record downloader_cfg =
  download_dir :: string
  use_resolved_url :: bool
  mirror_registry :: "string option"

text \<open>
  The body of a streamed reply: the chunks \<open>iter_content\<close> yields, and whether the
  stream then ends or breaks with an exception of \<open>requests\<close>.
\<close>

datatype body_stream = Chunks "byte list list" | Broken "byte list list"

text \<open>
  What \<open>download_package\<close> runs on: the library functions \<open>hashlib.sha512\<close> (from
  the bytes hashed to the digest) and \<open>urllib.parse.urljoin\<close>, the working directory,
  the answers of \<open>mkdir\<close> and of the registry, and the files by the path they are
  opened with.
\<close>

record host =
  sha512 :: "byte list \<Rightarrow> byte list"
  urljoin :: "string \<Rightarrow> string \<Rightarrow> string"
  getcwd :: string
  mkdir :: "string \<Rightarrow> py_exception option"
  request :: "string \<Rightarrow> body_stream http_reply"
  files :: "string \<Rightarrow> byte list option"

definition download_url :: "host \<Rightarrow> package \<Rightarrow> downloader_cfg \<Rightarrow> string" where
  "download_url h p cfg =
     (if \<not> use_resolved_url cfg \<and> truthy (mirror_registry cfg)
      then urljoin h (the (mirror_registry cfg))
             (pkg_name p @ ''/-/'' @ last (split_on CHR ''/'' (pkg_name p))
              @ ''-'' @ pkg_version p @ ''.tgz'')
      else pkg_resolved p)"

definition pkg_filename :: "package \<Rightarrow> string" where
  "pkg_filename p =
     replace_char (CHR 0x5C) CHR ''#'' (replace_char CHR ''/'' CHR ''#'' (pkg_name p))
     @ ''-'' @ pkg_version p @ ''.tgz''"

definition tgz_path :: "package \<Rightarrow> downloader_cfg \<Rightarrow> string" where
  "tgz_path p cfg = path_join (download_dir cfg) (pkg_filename p)"

text \<open>
  Reading the cached file: \<open>f.read(8192)\<close> until it returns nothing, every chunk
  going into the hash.  The hash object is modelled by the bytes it has been fed.
\<close>

function read_loop :: "byte list \<Rightarrow> byte list \<Rightarrow> byte list" where
  "read_loop rest hashed =
     (if take 8192 rest = [] then hashed
      else read_loop (drop 8192 rest) (hashed @ take 8192 rest))"
  by pat_completeness auto
termination
  by (relation "measure (\<lambda>(rest, hashed). length rest)") auto

text \<open>Writing the stream: every chunk goes to the file and into the hash.\<close>

fun write_chunks :: "byte list list \<Rightarrow> byte list \<times> byte list \<Rightarrow> byte list \<times> byte list" where
  "write_chunks [] (written, hashed) = (written, hashed)"
| "write_chunks (chunk # chunks) (written, hashed) =
     write_chunks chunks (written @ chunk, hashed @ chunk)"

text \<open>
  The first half of the \<open>try\<close> block: the bytes hashed and the files afterwards, or
  the exception raised and the files it leaves.
\<close>

definition obtain_bytes ::
  "host \<Rightarrow> string \<Rightarrow> string \<Rightarrow> (py_exception + byte list) \<times> (string \<Rightarrow> byte list option)" where
  "obtain_bytes h url path =
     (case files h path of
        Some content \<Rightarrow> (Inr (read_loop content []), files h)
      | None \<Rightarrow>
          (case request h url of
             NoReply \<Rightarrow> (Inl RequestException, files h)
           | Reply status body \<Rightarrow>
               (case raise_for_status status of
                  Some e \<Rightarrow> (Inl e, files h)
                | None \<Rightarrow>
                    (case body of
                       Chunks cs \<Rightarrow>
                         (let (written, hashed) = write_chunks cs ([], [])
                          in (Inr hashed, (files h)(path \<mapsto> written)))
                     | Broken cs \<Rightarrow>
                         (let (written, hashed) = write_chunks cs ([], [])
                          in (Inl RequestException, (files h)(path \<mapsto> written)))))))"

text \<open>The metadata of a verified package.\<close>

definition meta_entry :: "host \<Rightarrow> package \<Rightarrow> downloader_cfg \<Rightarrow> string \<Rightarrow> package_meta" where
  "meta_entry h p cfg downloaded_hash_hex =
     (let name = pkg_name p;
          (grp, name') =
            (if CHR ''/'' \<in> set name
             then (case split_first CHR ''/'' name of
                     [g, n] \<Rightarrow> (g, n)
                   | _ \<Rightarrow> ([], name))
             else ([], name))
      in \<lparr>meta_group = grp,
          meta_name = name',
          meta_version = pkg_version p,
          meta_nexus_search_name = name' @ ''-'' @ pkg_version p,
          meta_download_url = download_url h p cfg,
          meta_local_path = abspath (getcwd h) (tgz_path p cfg),
          meta_sha512_hex = downloaded_hash_hex\<rparr>)"

text \<open>
  \<open>download_package\<close>.  \<open>mkdir\<close> runs before the \<open>try\<close> and may raise out of the
  function; every exception inside the \<open>try\<close> is printed and turned into \<open>None\<close>.
\<close>

definition download_package ::
  "host \<Rightarrow> package \<Rightarrow> downloader_cfg
     \<Rightarrow> (py_exception + package_meta option) \<times> host \<times> dl_message list" where
  "download_package h p cfg =
     (let name = pkg_name p;
          version = pkg_version p;
          expected_sha512_b64 = pkg_sha512_b64 p;
          path = tgz_path p cfg
      in case mkdir h (download_dir cfg) of
           Some e \<Rightarrow> (Inl e, h, [])
         | None \<Rightarrow>
             (case obtain_bytes h (download_url h p cfg) path of
                (Inl e, fs) \<Rightarrow>
                  (Inr None, h\<lparr>files := fs\<rparr>, [DownloadFailed name version e])
              | (Inr hashed, fs) \<Rightarrow>
                  (let downloaded_hash_b64 = b64encode (sha512 h hashed);
                       downloaded_hash_hex = hexencode (sha512 h hashed)
                   in if downloaded_hash_b64 \<noteq> expected_sha512_b64
                      then (Inr None, h\<lparr>files := fs(path := None)\<rparr>,
                            [DownloadFailed name version
                               (Sha512Mismatch expected_sha512_b64 downloaded_hash_b64)])
                      else (Inr (Some (meta_entry h p cfg downloaded_hash_hex)),
                            h\<lparr>files := fs\<rparr>, []))))"

section \<open>Example inputs for the Nexus client\<close>

definition ex_uploader :: uploader where
  "ex_uploader = \<lparr>base_url = ''http://nexus'', upload_repo = ''npm-hosted'',
                   check_repos = [''npm-proxy'', ''npm-hosted'']\<rparr>"

definition ex_meta :: package_meta where
  "ex_meta = \<lparr>meta_group = [], meta_name = ''left-pad'', meta_version = ''1.0.0'',
               meta_nexus_search_name = ''left-pad-1.0.0'',
               meta_download_url = ''http://registry/left-pad/-/left-pad-1.0.0.tgz'',
               meta_local_path = ''/work/npm_tgz/left-pad-1.0.0.tgz'',
               meta_sha512_hex = ''ab12''\<rparr>"

definition ex_component :: "string \<Rightarrow> string \<Rightarrow> string \<Rightarrow> component" where
  "ex_component i repo digest =
     \<lparr>comp_id = i, comp_repository = repo,
      comp_assets = Some [\<lparr>asset_path = Some ''left-pad/-/left-pad-1.0.0.tgz'',
                            asset_checksum = Some [(''sha1'', ''00''), (''sha512'', digest)]\<rparr>]\<rparr>"

definition ex_found :: "component list \<Rightarrow> search_data option http_reply" where
  "ex_found cs = Reply 200 (Some \<lparr>items = Some cs\<rparr>)"

definition ex_world ::
  "(string \<times> search_data option http_reply) list \<Rightarrow> nat \<Rightarrow> world" where
  "ex_world found delete_status =
     \<lparr>http_get = (\<lambda>url params.
         case map_of params ''repository'' of
           None \<Rightarrow> Reply 404 None
         | Some repo \<Rightarrow> (case map_of found repo of None \<Rightarrow> Reply 404 None | Some r \<Rightarrow> r)),
      http_delete = (\<lambda>url. Reply delete_status ()),
      http_post = (\<lambda>url file. Reply 200 []),
      local_file = (\<lambda>p. Readable)\<rparr>"

definition ex_world_two_items :: world where
  "ex_world_two_items =
     ex_world [(''npm-hosted'', ex_found [ex_component ''c1'' ''npm-hosted'' ''ab12'',
                                          ex_component ''c2'' ''npm-hosted'' ''ab12''])] 204"

definition ex_world_stale_then_same :: world where
  "ex_world_stale_then_same =
     ex_world [(''npm-proxy'', ex_found [ex_component ''c1'' ''npm-proxy'' ''ffff'']),
               (''npm-hosted'', ex_found [ex_component ''c2'' ''npm-hosted'' ''ab12''])] 204"

definition ex_world_same_in_hosted :: world where
  "ex_world_same_in_hosted =
     ex_world [(''npm-hosted'', ex_found [ex_component ''c2'' ''npm-hosted'' ''ab12''])] 204"

definition ex_world_stale_in_hosted :: "nat \<Rightarrow> world" where
  "ex_world_stale_in_hosted delete_status =
     ex_world [(''npm-hosted'', ex_found [ex_component ''c3'' ''npm-hosted'' ''ffff''])]
              delete_status"

definition ex_world_stale_in_proxy :: world where
  "ex_world_stale_in_proxy =
     ex_world [(''npm-proxy'', ex_found [ex_component ''c1'' ''npm-proxy'' ''ffff''])] 204"

section \<open>Properties of the Nexus client\<close>

text \<open>
  The search sends no changing request and enters neither \<open>_delete_component\<close> nor
  \<open>_upload_package\<close>; each of those two is entered once per call.
\<close>

lemma calls_append: "calls (xs @ ys) = calls xs @ calls ys"
  by (simp add: calls_def)

lemma calls_Print: "calls (Print p # xs) = calls xs"
  by (simp add: calls_def)

lemma calls_Nil: "calls [] = []"
  by (simp add: calls_def)

lemma calls_find_component: "calls (snd (find_component w u repo grp name version)) = []"
  by (simp add: find_component_def calls_def Let_def
           split: http_reply.splits option.splits list.splits)

lemma calls_search_repos: "calls (snd (search_repos w u m repos)) = []"
proof (induction repos)
  case Nil
  show ?case by (simp add: calls_def)
next
  case (Cons repo repos)
  obtain r evs where f: "find_component w u repo (meta_group m) (meta_name m) (meta_version m) = (r, evs)"
    by (cases "find_component w u repo (meta_group m) (meta_name m) (meta_version m)")
  have e: "calls evs = []"
    using calls_find_component [of w u repo "meta_group m" "meta_name m" "meta_version m"] f
    by simp
  show ?case
  proof (cases r)
    case None
    with f e Cons show ?thesis
      by (auto simp: calls_append split: prod.splits)
  next
    case (Some c)
    with f e show ?thesis
      by (simp add: calls_append calls_Print calls_Nil Let_def)
  qed
qed

lemma search_repos_first:
  assumes "\<forall>r \<in> set before. fst (find_component w u r (meta_group m) (meta_name m) (meta_version m)) = None"
    and "fst (find_component w u repo (meta_group m) (meta_name m) (meta_version m)) = Some c"
  shows "fst (search_repos w u m (before @ repo # after)) =
           (Some c, get_remote_sha512_hex (Some c) = Some (meta_sha512_hex m))"
  using assms
proof (induction before)
  case Nil
  then show ?case
    by (cases "find_component w u repo (meta_group m) (meta_name m) (meta_version m)")
       (simp add: Let_def)
next
  case (Cons r rs)
  then show ?case
    by (cases "find_component w u r (meta_group m) (meta_name m) (meta_version m)")
       (auto split: prod.splits)
qed

lemma calls_delete_component: "calls (snd (delete_component w u i)) = [Delete i]"
  by (simp add: delete_component_def calls_def Let_def split: http_reply.splits option.splits)

lemma calls_upload_package: "calls (snd (upload_package w u m)) = [Upload m]"
  by (simp add: upload_package_def calls_def Let_def
           split: http_reply.splits option.splits file_status.splits)

lemma writes_find_component:
  "filter is_write_request (snd (find_component w u repo grp name version)) = []"
  by (simp add: find_component_def Let_def
           split: http_reply.splits option.splits list.splits)

lemma writes_search_repos: "filter is_write_request (snd (search_repos w u m repos)) = []"
proof (induction repos)
  case Nil
  show ?case by simp
next
  case (Cons repo repos)
  obtain r evs where f: "find_component w u repo (meta_group m) (meta_name m) (meta_version m) = (r, evs)"
    by (cases "find_component w u repo (meta_group m) (meta_name m) (meta_version m)")
  have e: "filter is_write_request evs = []"
    using writes_find_component [of w u repo "meta_group m" "meta_name m" "meta_version m"] f
    by simp
  show ?case
  proof (cases r)
    case None
    with f e Cons show ?thesis
      by (auto split: prod.splits)
  next
    case (Some c)
    with f e show ?thesis
      by (simp add: Let_def)
  qed
qed

lemma writes_delete_component:
  "filter is_write_request (snd (delete_component w u i)) = [DeleteRequest (components_url u @ ''/'' @ i)]"
  by (simp add: delete_component_def Let_def split: http_reply.splits option.splits)

lemma writes_upload_package:
  "filter is_write_request (snd (upload_package w u m)) =
     (if local_file w (meta_local_path m) = Readable
      then [Post (upload_url u) (meta_local_path m)] else [])"
  by (simp add: upload_package_def Let_def
           split: http_reply.splits option.splits file_status.splits)

lemma process_package_first_found:
  assumes "check_repos u = before @ repo # after"
    and "\<forall>r \<in> set before.
           fst (find_component w u r (meta_group m) (meta_name m) (meta_version m)) = None"
    and "fst (find_component w u repo (meta_group m) (meta_name m) (meta_version m)) = Some c"
    and "get_remote_sha512_hex (Some c) \<noteq> Some (meta_sha512_hex m)"
  obtains evs where
    "calls evs = []" and "filter is_write_request evs = []" and
    "snd (process_package w u m) =
       evs @ (if comp_repository c = upload_repo u
              then Print (DeletingFromTarget (upload_repo u)) # snd (delete_component w u (comp_id c))
              else [Print (FoundElsewhere (comp_repository c) (upload_repo u)), Print MayDuplicate])
           @ Print (PreparingUpload (upload_repo u)) # snd (upload_package w u m)"
proof -
  have found: "fst (search_repos w u m (check_repos u)) = (Some c, False)"
    using search_repos_first [OF assms(2) assms(3), of after] assms(1) assms(4) by simp
  obtain evs where s: "search_repos w u m (check_repos u) = ((Some c, False), evs)"
    using found by (cases "search_repos w u m (check_repos u)") simp
  have "calls evs = []"
    using calls_search_repos [of w u m "check_repos u"] s by simp
  then have 1: "calls (Print (Processing (pkg_id m)) # evs) = []"
    by (simp add: calls_Print)
  have "filter is_write_request evs = []"
    using writes_search_repos [of w u m "check_repos u"] s by simp
  then have 2: "filter is_write_request (Print (Processing (pkg_id m)) # evs) = []"
    by simp
  have 3: "snd (process_package w u m) =
       (Print (Processing (pkg_id m)) # evs)
         @ (if comp_repository c = upload_repo u
            then Print (DeletingFromTarget (upload_repo u)) # snd (delete_component w u (comp_id c))
            else [Print (FoundElsewhere (comp_repository c) (upload_repo u)), Print MayDuplicate])
         @ Print (PreparingUpload (upload_repo u)) # snd (upload_package w u m)"
    using s by (simp add: process_package_def Let_def)
  show thesis
    using that [OF 1 2 3] .
qed

lemmas ex_defs = ex_uploader_def ex_meta_def ex_component_def ex_found_def ex_world_def
  ex_world_two_items_def ex_world_stale_then_same_def ex_world_same_in_hosted_def
  ex_world_stale_in_hosted_def ex_world_stale_in_proxy_def

lemmas client_defs = find_component_def find_params_def search_components_url_def
  components_url_def upload_url_def raise_for_status_def remove_char_def
  get_remote_sha512_hex_def endswith_def delete_component_def upload_package_def
  process_package_def pkg_id_def str_of_digest_def calls_def

text \<open>
  Claim C1.  A search reply with more than one item must surface an invariant-violation
  error to the caller of \<open>_find_component\<close>.  The \<open>ValueError\<close> is raised inside
  the \<open>try\<close> whose \<open>except Exception\<close> handler prints it and falls through to
  \<open>return None\<close>: for a reply with two items the caller is told that the component
  is absent, and \<open>process_package\<close> goes on to upload the package.
\<close>

theorem find_component_two_items_returns_None:
  "find_component ex_world_two_items ex_uploader ''npm-hosted'' [] ''left-pad'' ''1.0.0'' =
     (None,
      [Find ''npm-hosted'' [] ''left-pad'' ''1.0.0'',
       Get ''http://nexus/service/rest/v1/search''
           [(''repository'', ''npm-hosted''), (''name'', ''left-pad''),
            (''version'', ''1.0.0''), (''group'', [CHR 0x22, CHR 0x22])],
       Print (FindUnexpected ''npm-hosted'' (NotUnique [] ''left-pad'' ''1.0.0''))])
   \<and> fst (process_package ex_world_two_items ex_uploader ex_meta) = None
   \<and> calls (snd (process_package ex_world_two_items ex_uploader ex_meta)) = [Upload ex_meta]"
  by (simp add: ex_defs client_defs Let_def)

text \<open>
  Claim C5, as stated: if some check repository holds a matching component with the
  local digest, nothing is uploaded or deleted.  The search stops at the first
  repository that reports a component: with a stale copy in the first repository and an
  identical copy in the second, the package is uploaded.
\<close>

theorem some_repo_matches_still_uploads:
  "''npm-hosted'' \<in> set (check_repos ex_uploader)
   \<and> fst (find_component ex_world_stale_then_same ex_uploader ''npm-hosted''
             (meta_group ex_meta) (meta_name ex_meta) (meta_version ex_meta))
       = Some (ex_component ''c2'' ''npm-hosted'' ''ab12'')
   \<and> get_remote_sha512_hex (Some (ex_component ''c2'' ''npm-hosted'' ''ab12''))
       = Some (meta_sha512_hex ex_meta)
   \<and> calls (snd (process_package ex_world_stale_then_same ex_uploader ex_meta))
       = [Upload ex_meta]"
  by (simp add: ex_defs client_defs Let_def)

text \<open>
  Claim C5, amended.  If the first check repository, in configured order, in which
  \<open>_find_component\<close> returns a component returns one whose remote digest equals the
  local digest, then \<open>process_package\<close> enters neither \<open>_upload_package\<close> nor
  \<open>_delete_component\<close> and returns normally.
\<close>

theorem first_found_matches_skips:
  assumes "check_repos u = before @ repo # after"
    and "\<forall>r \<in> set before.
           fst (find_component w u r (meta_group m) (meta_name m) (meta_version m)) = None"
    and "fst (find_component w u repo (meta_group m) (meta_name m) (meta_version m)) = Some c"
    and "get_remote_sha512_hex (Some c) = Some (meta_sha512_hex m)"
  shows "filter is_upload_call (snd (process_package w u m)) = []
       \<and> filter is_delete_call (snd (process_package w u m)) = []
       \<and> fst (process_package w u m) = None"
proof -
  have found: "fst (search_repos w u m (check_repos u)) = (Some c, True)"
    using search_repos_first [OF assms(2) assms(3), of after] assms(1) assms(4) by simp
  obtain evs where s: "search_repos w u m (check_repos u) = ((Some c, True), evs)"
    using found by (cases "search_repos w u m (check_repos u)") simp
  have quiet: "calls evs = []"
    using calls_search_repos [of w u m "check_repos u"] s by simp
  have run: "process_package w u m = (None, Print (Processing (pkg_id m)) # evs)"
    using s by (simp add: process_package_def)
  have none: "\<forall>e \<in> set evs. \<not> is_upload_call e \<and> \<not> is_delete_call e"
    using quiet by (auto simp: calls_def filter_empty_conv)
  show ?thesis
    using run none by (simp add: filter_empty_conv)
qed

theorem first_found_matches_skips_witness:
  "check_repos ex_uploader = [''npm-proxy''] @ ''npm-hosted'' # []
   \<and> filter is_upload_call (snd (process_package ex_world_same_in_hosted ex_uploader ex_meta)) = []
   \<and> filter is_delete_call (snd (process_package ex_world_same_in_hosted ex_uploader ex_meta)) = []"
proof -
  have a: "check_repos ex_uploader = [''npm-proxy''] @ ''npm-hosted'' # []"
    by (simp add: ex_defs)
  have b: "\<forall>r \<in> set [''npm-proxy''].
             fst (find_component ex_world_same_in_hosted ex_uploader r
                    (meta_group ex_meta) (meta_name ex_meta) (meta_version ex_meta)) = None"
    by (simp add: ex_defs client_defs Let_def)
  have c: "fst (find_component ex_world_same_in_hosted ex_uploader ''npm-hosted''
                  (meta_group ex_meta) (meta_name ex_meta) (meta_version ex_meta))
           = Some (ex_component ''c2'' ''npm-hosted'' ''ab12'')"
    by (simp add: ex_defs client_defs Let_def)
  have d: "get_remote_sha512_hex (Some (ex_component ''c2'' ''npm-hosted'' ''ab12''))
           = Some (meta_sha512_hex ex_meta)"
    by (simp add: ex_defs client_defs)
  show ?thesis
    using a first_found_matches_skips [OF a b c d] by simp
qed

text \<open>
  Claim C6.  If the first component found has a digest different from the local one and
  its repository is the upload repository, \<open>process_package\<close> enters
  \<open>_delete_component\<close> exactly once, with that component's id, and then
  \<open>_upload_package\<close> exactly once.  On the wire this is one DELETE for the component,
  followed by one POST to the upload URL when the local file can be read.
\<close>

theorem mismatch_in_target_deletes_then_uploads:
  assumes "check_repos u = before @ repo # after"
    and "\<forall>r \<in> set before.
           fst (find_component w u r (meta_group m) (meta_name m) (meta_version m)) = None"
    and "fst (find_component w u repo (meta_group m) (meta_name m) (meta_version m)) = Some c"
    and "get_remote_sha512_hex (Some c) \<noteq> Some (meta_sha512_hex m)"
    and "comp_repository c = upload_repo u"
  shows "calls (snd (process_package w u m)) = [Delete (comp_id c), Upload m]
       \<and> filter is_write_request (snd (process_package w u m)) =
             DeleteRequest (components_url u @ ''/'' @ comp_id c)
             # (if local_file w (meta_local_path m) = Readable
                then [Post (upload_url u) (meta_local_path m)] else [])"
proof -
  obtain evs where q: "calls evs = []" and r: "filter is_write_request evs = []"
    and run: "snd (process_package w u m) =
       evs @ (Print (DeletingFromTarget (upload_repo u)) # snd (delete_component w u (comp_id c)))
           @ Print (PreparingUpload (upload_repo u)) # snd (upload_package w u m)"
  proof -
    from process_package_first_found [OF assms(1-4)]
    obtain evs where "calls evs = []" and "filter is_write_request evs = []" and
      "snd (process_package w u m) =
       evs @ (if comp_repository c = upload_repo u
              then Print (DeletingFromTarget (upload_repo u)) # snd (delete_component w u (comp_id c))
              else [Print (FoundElsewhere (comp_repository c) (upload_repo u)), Print MayDuplicate])
           @ Print (PreparingUpload (upload_repo u)) # snd (upload_package w u m)"
      by blast
    with assms(5) that show thesis by simp
  qed
  have "calls (snd (process_package w u m)) = [Delete (comp_id c), Upload m]"
    by (simp add: run calls_append calls_Print q calls_delete_component calls_upload_package)
  moreover have "filter is_write_request (snd (process_package w u m)) =
             DeleteRequest (components_url u @ ''/'' @ comp_id c)
             # (if local_file w (meta_local_path m) = Readable
                then [Post (upload_url u) (meta_local_path m)] else [])"
    by (simp add: run r writes_delete_component writes_upload_package)
  ultimately show ?thesis by simp
qed

theorem mismatch_in_target_deletes_then_uploads_witness:
  "calls (snd (process_package (ex_world_stale_in_hosted 204) ex_uploader ex_meta)) =
     [Delete ''c3'', Upload ex_meta]
   \<and> filter is_write_request (snd (process_package (ex_world_stale_in_hosted 204) ex_uploader ex_meta)) =
     [DeleteRequest ''http://nexus/service/rest/v1/components/c3'',
      Post ''http://nexus/service/rest/v1/components?repository=npm-hosted''
           ''/work/npm_tgz/left-pad-1.0.0.tgz'']"
proof -
  let ?w = "ex_world_stale_in_hosted 204" and ?c = "ex_component ''c3'' ''npm-hosted'' ''ffff''"
  have a: "check_repos ex_uploader = [''npm-proxy''] @ ''npm-hosted'' # []"
    by (simp add: ex_defs)
  have b: "\<forall>r \<in> set [''npm-proxy''].
             fst (find_component ?w ex_uploader r
                    (meta_group ex_meta) (meta_name ex_meta) (meta_version ex_meta)) = None"
    by (simp add: ex_defs client_defs Let_def)
  have c: "fst (find_component ?w ex_uploader ''npm-hosted''
                  (meta_group ex_meta) (meta_name ex_meta) (meta_version ex_meta)) = Some ?c"
    by (simp add: ex_defs client_defs Let_def)
  have d: "get_remote_sha512_hex (Some ?c) \<noteq> Some (meta_sha512_hex ex_meta)"
    by (simp add: ex_defs client_defs)
  have e: "comp_repository ?c = upload_repo ex_uploader"
    by (simp add: ex_defs)
  show ?thesis
    using mismatch_in_target_deletes_then_uploads [OF a b c d e]
    by (simp add: ex_defs components_url_def upload_url_def)
qed

text \<open>
  Claim C7.  If the first component found has a digest different from the local one and
  lives in a repository other than the upload repository, \<open>process_package\<close> never
  enters \<open>_delete_component\<close>, prints the duplication warning, and enters
  \<open>_upload_package\<close> exactly once.
\<close>

theorem mismatch_elsewhere_uploads_without_delete:
  assumes "check_repos u = before @ repo # after"
    and "\<forall>r \<in> set before.
           fst (find_component w u r (meta_group m) (meta_name m) (meta_version m)) = None"
    and "fst (find_component w u repo (meta_group m) (meta_name m) (meta_version m)) = Some c"
    and "get_remote_sha512_hex (Some c) \<noteq> Some (meta_sha512_hex m)"
    and "comp_repository c \<noteq> upload_repo u"
  shows "calls (snd (process_package w u m)) = [Upload m]
       \<and> filter is_write_request (snd (process_package w u m)) =
             (if local_file w (meta_local_path m) = Readable
              then [Post (upload_url u) (meta_local_path m)] else [])
       \<and> Print MayDuplicate \<in> set (snd (process_package w u m))"
proof -
  from process_package_first_found [OF assms(1-4)]
  obtain evs where q: "calls evs = []" and r: "filter is_write_request evs = []"
    and run0: "snd (process_package w u m) =
       evs @ (if comp_repository c = upload_repo u
              then Print (DeletingFromTarget (upload_repo u)) # snd (delete_component w u (comp_id c))
              else [Print (FoundElsewhere (comp_repository c) (upload_repo u)), Print MayDuplicate])
           @ Print (PreparingUpload (upload_repo u)) # snd (upload_package w u m)"
    by blast
  have run: "snd (process_package w u m) =
       evs @ [Print (FoundElsewhere (comp_repository c) (upload_repo u)), Print MayDuplicate]
           @ Print (PreparingUpload (upload_repo u)) # snd (upload_package w u m)"
    using run0 assms(5) by simp
  have "calls (snd (process_package w u m)) = [Upload m]"
    by (simp add: run calls_append calls_Print calls_Nil q calls_upload_package)
  moreover have "filter is_write_request (snd (process_package w u m)) =
             (if local_file w (meta_local_path m) = Readable
              then [Post (upload_url u) (meta_local_path m)] else [])"
    by (simp add: run r writes_upload_package)
  moreover have "Print MayDuplicate \<in> set (snd (process_package w u m))"
    by (simp add: run)
  ultimately show ?thesis by simp
qed

theorem mismatch_elsewhere_uploads_without_delete_witness:
  "calls (snd (process_package ex_world_stale_in_proxy ex_uploader ex_meta)) = [Upload ex_meta]
   \<and> filter is_write_request (snd (process_package ex_world_stale_in_proxy ex_uploader ex_meta)) =
     [Post ''http://nexus/service/rest/v1/components?repository=npm-hosted''
           ''/work/npm_tgz/left-pad-1.0.0.tgz'']
   \<and> Print MayDuplicate \<in> set (snd (process_package ex_world_stale_in_proxy ex_uploader ex_meta))"
proof -
  let ?w = "ex_world_stale_in_proxy" and ?c = "ex_component ''c1'' ''npm-proxy'' ''ffff''"
  have a: "check_repos ex_uploader = [] @ ''npm-proxy'' # [''npm-hosted'']"
    by (simp add: ex_defs)
  have b: "\<forall>r \<in> set [].
             fst (find_component ?w ex_uploader r
                    (meta_group ex_meta) (meta_name ex_meta) (meta_version ex_meta)) = None"
    by simp
  have c: "fst (find_component ?w ex_uploader ''npm-proxy''
                  (meta_group ex_meta) (meta_name ex_meta) (meta_version ex_meta)) = Some ?c"
    by (simp add: ex_defs client_defs Let_def)
  have d: "get_remote_sha512_hex (Some ?c) \<noteq> Some (meta_sha512_hex ex_meta)"
    by (simp add: ex_defs client_defs)
  have e: "comp_repository ?c \<noteq> upload_repo ex_uploader"
    by (simp add: ex_defs)
  show ?thesis
    using mismatch_elsewhere_uploads_without_delete [OF a b c d e]
    by (simp add: ex_defs upload_url_def)
qed

text \<open>
  Claim C9.  In the replace-then-upload case, a failing \<open>_delete_component\<close> prints
  its failure and its result is dropped: the events of the delete are followed by the
  announcement of the upload and by exactly one call of \<open>_upload_package\<close>.
\<close>

theorem failed_delete_still_uploads:
  assumes "check_repos u = before @ repo # after"
    and "\<forall>r \<in> set before.
           fst (find_component w u r (meta_group m) (meta_name m) (meta_version m)) = None"
    and "fst (find_component w u repo (meta_group m) (meta_name m) (meta_version m)) = Some c"
    and "get_remote_sha512_hex (Some c) \<noteq> Some (meta_sha512_hex m)"
    and "comp_repository c = upload_repo u"
    and "fst (delete_component w u (comp_id c)) = False"
  shows "(\<exists>e. Print (DeleteFailed (comp_id c) e) \<in> set (snd (process_package w u m)))
       \<and> filter is_upload_call (snd (process_package w u m)) = [Upload m]
       \<and> (\<exists>evs. snd (process_package w u m) =
                   evs @ snd (delete_component w u (comp_id c))
                   @ Print (PreparingUpload (upload_repo u)) # snd (upload_package w u m))"
proof -
  from process_package_first_found [OF assms(1-4)]
  obtain evs where q: "calls evs = []"
    and run0: "snd (process_package w u m) =
       evs @ (if comp_repository c = upload_repo u
              then Print (DeletingFromTarget (upload_repo u)) # snd (delete_component w u (comp_id c))
              else [Print (FoundElsewhere (comp_repository c) (upload_repo u)), Print MayDuplicate])
           @ Print (PreparingUpload (upload_repo u)) # snd (upload_package w u m)"
    by blast
  have run: "snd (process_package w u m) =
       (evs @ [Print (DeletingFromTarget (upload_repo u))]) @ snd (delete_component w u (comp_id c))
           @ Print (PreparingUpload (upload_repo u)) # snd (upload_package w u m)"
    using run0 assms(5) by simp
  have "\<exists>e. Print (DeleteFailed (comp_id c) e) \<in> set (snd (delete_component w u (comp_id c)))"
    using assms(6)
    by (auto simp: delete_component_def Let_def split: http_reply.splits option.splits)
  then have 1: "\<exists>e. Print (DeleteFailed (comp_id c) e) \<in> set (snd (process_package w u m))"
    unfolding run by auto
  have u1: "filter is_upload_call evs = []"
    using q by (auto simp: calls_def filter_empty_conv)
  have u2: "filter is_upload_call (snd (delete_component w u (comp_id c))) = []"
    by (simp add: delete_component_def Let_def split: http_reply.splits option.splits)
  have u3: "filter is_upload_call (snd (upload_package w u m)) = [Upload m]"
    by (simp add: upload_package_def Let_def
             split: http_reply.splits option.splits file_status.splits)
  have 2: "filter is_upload_call (snd (process_package w u m)) = [Upload m]"
    unfolding run by (simp add: u1 u2 u3)
  have 3: "\<exists>evs. snd (process_package w u m) =
                   evs @ snd (delete_component w u (comp_id c))
                   @ Print (PreparingUpload (upload_repo u)) # snd (upload_package w u m)"
    using run by blast
  show ?thesis
    using 1 2 3 by simp
qed

theorem failed_delete_still_uploads_witness:
  "fst (delete_component (ex_world_stale_in_hosted 500) ex_uploader ''c3'') = False
   \<and> Print (DeleteFailed ''c3'' (HTTPError 500))
         \<in> set (snd (process_package (ex_world_stale_in_hosted 500) ex_uploader ex_meta))
   \<and> filter is_upload_call (snd (process_package (ex_world_stale_in_hosted 500) ex_uploader ex_meta))
       = [Upload ex_meta]"
proof -
  let ?w = "ex_world_stale_in_hosted 500" and ?c = "ex_component ''c3'' ''npm-hosted'' ''ffff''"
  have a: "check_repos ex_uploader = [''npm-proxy''] @ ''npm-hosted'' # []"
    by (simp add: ex_defs)
  have b: "\<forall>r \<in> set [''npm-proxy''].
             fst (find_component ?w ex_uploader r
                    (meta_group ex_meta) (meta_name ex_meta) (meta_version ex_meta)) = None"
    by (simp add: ex_defs client_defs Let_def)
  have c: "fst (find_component ?w ex_uploader ''npm-hosted''
                  (meta_group ex_meta) (meta_name ex_meta) (meta_version ex_meta)) = Some ?c"
    by (simp add: ex_defs client_defs Let_def)
  have d: "get_remote_sha512_hex (Some ?c) \<noteq> Some (meta_sha512_hex ex_meta)"
    by (simp add: ex_defs client_defs)
  have e: "comp_repository ?c = upload_repo ex_uploader"
    by (simp add: ex_defs)
  have f: "fst (delete_component ?w ex_uploader (comp_id ?c)) = False"
    by (simp add: ex_defs client_defs Let_def)
  have g: "Print (DeleteFailed ''c3'' (HTTPError 500))
         \<in> set (snd (process_package ?w ex_uploader ex_meta))"
    by (simp add: ex_defs client_defs Let_def)
  show ?thesis
    using f g failed_delete_still_uploads [OF a b c d e f]
    by (simp add: ex_defs)
qed


end
